theory Spec2Isabelle
  imports
    Complex_Main
    "HOL-Library.Multiset"
    "HOL-Library.Log_Nat"
    "HOL-Library.Char_ord"
    "HOL-Library.List_Lexorder"
begin

section \<open>Data model of \<open>voice_engine.py\<close>\<close>

text \<open>
  A Python float is modelled by the real number it denotes. numpy's mean is a parameter of
  the combiner: \<open>np_mean_f64\<close> is the mean as numpy computes it, every operation rounded
  to IEEE binary64, and \<open>np_mean_exact\<close> is the mean in exact arithmetic. The scorer and
  the progress values are written with the operations of the reals, and the literals
  \<open>0.7\<close>, \<open>0.05\<close>, ... are the decimal fractions.
\<close>

text \<open>Exceptions are values; a function that can raise returns \<open>py_error + 'a\<close>.\<close>

datatype py_error =
    ValueError string
  | TypeError string
  | FileNotFoundError string
  | OSError string

text \<open>The dataclass \<open>VoiceCharacteristics\<close>; a one-dimensional \<open>np.ndarray\<close> is a list.\<close>

record VoiceCharacteristics =
  fundamental_frequency :: real
  spectral_centroid :: real
  spectral_rolloff :: real
  zero_crossing_rate :: real
  mfcc_features :: "real list"
  chroma_features :: "real list"
  tempo :: real
  pitch_variance :: real
  formants :: "real list"
  voice_quality_score :: real

text \<open>
  The combined profile is a Python \<open>dict\<close> from key strings to floats and lists of floats.
\<close>

datatype pyval = PyFloat real | PyList "real list"

type_synonym pydict = "string \<rightharpoonup> pyval"

text \<open>\<open>d.get(key, default)\<close>\<close>

definition dict_get :: "('k \<rightharpoonup> 'v) \<Rightarrow> 'k \<Rightarrow> 'v \<Rightarrow> 'v" where
  "dict_get d k dflt = (case d k of None \<Rightarrow> dflt | Some v \<Rightarrow> v)"

section \<open>numpy operations used by the combiner\<close>

text \<open>
  The mean of a non-empty sequence in exact arithmetic. It is not what \<open>np.mean\<close>
  computes (that is \<open>np_mean_f64\<close> below); it serves to say what holds of the
  combiner when no operation rounds.
\<close>

definition np_mean_exact :: "real list \<Rightarrow> real" where
  "np_mean_exact xs = sum_list xs / real (length xs)"

text \<open>
  \<open>np.stack\<close> of one-dimensional arrays: the rows of a matrix. numpy raises
  \<open>ValueError\<close> when the list is empty or the arrays differ in shape.
\<close>

definition np_stack :: "real list list \<Rightarrow> py_error + real list list" where
  "np_stack arrays =
     (if arrays = [] then Inl (ValueError ''need at least one array to stack'')
      else if \<forall>a \<in> set arrays. length a = length (hd arrays) then Inr arrays
      else Inl (ValueError ''all input arrays must have the same shape''))"

text \<open>\<open>np.mean(stack, axis=0).tolist()\<close>: the mean of every column of a stacked matrix.\<close>

definition np_mean_axis0 :: "(real list \<Rightarrow> real) \<Rightarrow> real list list \<Rightarrow> real list" where
  "np_mean_axis0 np_mean rows =
     map (\<lambda>j. np_mean (map (\<lambda>row. row ! j) rows)) [0..<length (hd rows)]"

section \<open>Profile combiner: \<open>_combine_voice_characteristics\<close>\<close>

definition default_formants :: "real list" where
  "default_formants = [500, 1500, 2500, 3500]"

text \<open>\<open>sorted(list(set(all_formants)))[:4]\<close>, or the default when there is no formant.\<close>

definition combine_formants :: "real list \<Rightarrow> real list" where
  "combine_formants all_formants =
     (if all_formants \<noteq> [] then take 4 (sort (remdups all_formants))
      else default_formants)"

definition combine_voice_characteristics ::
  "(real list \<Rightarrow> real) \<Rightarrow> VoiceCharacteristics list \<Rightarrow> py_error + pydict" where
  "combine_voice_characteristics np_mean characteristics_list =
     (if characteristics_list = [] then Inl (ValueError ''No voice characteristics to combine'')
      else
        case np_stack (map mfcc_features characteristics_list) of
          Inl e \<Rightarrow> Inl e
        | Inr mfcc_stack \<Rightarrow>
        case np_stack (map chroma_features characteristics_list) of
          Inl e \<Rightarrow> Inl e
        | Inr chroma_stack \<Rightarrow>
        let all_formants = concat (map formants characteristics_list)
        in Inr
          [''fundamental_frequency'' \<mapsto>
              PyFloat (np_mean (map fundamental_frequency characteristics_list)),
           ''spectral_centroid'' \<mapsto>
              PyFloat (np_mean (map spectral_centroid characteristics_list)),
           ''spectral_rolloff'' \<mapsto>
              PyFloat (np_mean (map spectral_rolloff characteristics_list)),
           ''zero_crossing_rate'' \<mapsto>
              PyFloat (np_mean (map zero_crossing_rate characteristics_list)),
           ''tempo'' \<mapsto> PyFloat (np_mean (map tempo characteristics_list)),
           ''pitch_variance'' \<mapsto>
              PyFloat (np_mean (map pitch_variance characteristics_list)),
           ''voice_quality_score'' \<mapsto>
              PyFloat (np_mean (map voice_quality_score characteristics_list)),
           ''mfcc_features'' \<mapsto> PyList (np_mean_axis0 np_mean mfcc_stack),
           ''chroma_features'' \<mapsto> PyList (np_mean_axis0 np_mean chroma_stack),
           ''formants'' \<mapsto> PyList (combine_formants all_formants)])"

subsection \<open>The combiner as the specification words it\<close>



subsection \<open>numpy's mean in IEEE binary64\<close>

text \<open>
  A finite double is a real \<open>m * 2^e\<close> with \<open>|m| < 2^53\<close>; every operation returns the
  double nearest to the exact result, ties going to the even significand. The exponent of
  the unit in the last place is \<open>e - 52\<close> for \<open>2^e \<le> |x| < 2^(e+1)\<close>, and never below
  \<open>-1074\<close> (subnormals). Overflow to infinity is outside the model.
\<close>

definition f64_exponent :: "real \<Rightarrow> int" where
  "f64_exponent x =
     (if 1 \<le> x then bitlen \<lfloor>x\<rfloor> - 1
      else (let b = bitlen \<lfloor>1 / x\<rfloor>
            in if x * 2 ^ nat (b - 1) = 1 then 1 - b else - b))"

definition round_half_even :: "real \<Rightarrow> int" where
  "round_half_even y =
     (let f = \<lfloor>y\<rfloor>; r = y - of_int f
      in if r < 1 / 2 then f else if 1 / 2 < r then f + 1 else if even f then f else f + 1)"

definition f64_round :: "real \<Rightarrow> real" where
  "f64_round x =
     (if x = 0 then 0
      else let e = max (f64_exponent \<bar>x\<bar>) (- 1022) - 52
           in sgn x * of_int (round_half_even (\<bar>x\<bar> / 2 powi e)) * 2 powi e)"

definition f64_add :: "real \<Rightarrow> real \<Rightarrow> real" where
  "f64_add x y = f64_round (x + y)"

definition f64_div :: "real \<Rightarrow> real \<Rightarrow> real" where
  "f64_div x y = f64_round (x / y)"

text \<open>
  \<open>np.mean\<close> of fewer than eight doubles: numpy adds the elements to the accumulator in
  list order and divides the sum by the count.
\<close>

definition np_mean_f64 :: "real list \<Rightarrow> real" where
  "np_mean_f64 xs = f64_div (foldl f64_add 0 xs) (real (length xs))"

subsection \<open>Sample inputs\<close>

definition sample_a :: VoiceCharacteristics where
  "sample_a =
     \<lparr>fundamental_frequency = 120, spectral_centroid = 1800, spectral_rolloff = 3600,
      zero_crossing_rate = 1 / 8, mfcc_features = replicate 13 2,
      chroma_features = replicate 12 (1 / 4), tempo = 100, pitch_variance = 30,
      formants = [700, 300, 2500], voice_quality_score = 1 / 2\<rparr>"

definition sample_b :: VoiceCharacteristics where
  "sample_b =
     \<lparr>fundamental_frequency = 180, spectral_centroid = 2200, spectral_rolloff = 4400,
      zero_crossing_rate = 3 / 8, mfcc_features = replicate 13 4,
      chroma_features = replicate 12 (3 / 4), tempo = 140, pitch_variance = 10,
      formants = [300, 1200, 3100, 90], voice_quality_score = 1\<rparr>"

text \<open>A sample whose zero-crossing rate is the double nearest to the decimal \<open>z\<close>.\<close>

definition sample_zcr :: "real \<Rightarrow> VoiceCharacteristics" where
  "sample_zcr z =
     \<lparr>fundamental_frequency = 150, spectral_centroid = 2000, spectral_rolloff = 4000,
      zero_crossing_rate = f64_round z, mfcc_features = replicate 13 0,
      chroma_features = replicate 12 0, tempo = 120, pitch_variance = 0,
      formants = [], voice_quality_score = 1 / 2\<rparr>"

section \<open>Quality scorer: \<open>_validate_model_quality\<close>\<close>

definition quality_multipliers :: "string \<rightharpoonup> real" where
  "quality_multipliers =
     [''draft'' \<mapsto> 0.7, ''standard'' \<mapsto> 0.8, ''high'' \<mapsto> 0.9, ''premium'' \<mapsto> 0.95]"

text \<open>
  The function draws one sample from \<open>np.random.normal(0, 0.05)\<close>, the process-wide
  generator of numpy; the sample drawn by the call is the argument \<open>noise\<close>. A list under
  the key \<open>voice_quality_score\<close> cannot be multiplied by a float: Python raises
  \<open>TypeError\<close>.
\<close>

definition validate_model_quality :: "pydict \<Rightarrow> string \<Rightarrow> real \<Rightarrow> py_error + real" where
  "validate_model_quality characteristics quality noise =
     (case dict_get characteristics ''voice_quality_score'' (PyFloat 0.5) of
        PyList _ \<Rightarrow> Inl (TypeError ''can't multiply sequence by non-int of type 'float' '')
      | PyFloat base_quality \<Rightarrow>
          let multiplier = dict_get quality_multipliers quality 0.8;
              final_score = min 1.0 (base_quality * multiplier + noise)
          in Inr (max 0.0 final_score))"

subsection \<open>The scorer as the specification words it\<close>

definition clamp :: "real \<Rightarrow> real \<Rightarrow> real \<Rightarrow> real" where
  "clamp x lo hi = (if x < lo then lo else if hi < x then hi else x)"

definition tier_multiplier_spec :: "string \<Rightarrow> real" where
  "tier_multiplier_spec tier =
     (if tier = ''draft'' then 7 / 10
      else if tier = ''standard'' then 8 / 10
      else if tier = ''high'' then 9 / 10
      else if tier = ''premium'' then 95 / 100
      else 8 / 10)"

definition score_spec :: "real \<Rightarrow> string \<Rightarrow> real \<Rightarrow> real" where
  "score_spec base tier perturbation = clamp (base * tier_multiplier_spec tier + perturbation) 0 1"

section \<open>Training jobs\<close>

text \<open>
  The status strings \<open>'initializing'\<close>, \<open>'analyzing'\<close>, \<open>'training'\<close>,
  \<open>'completed'\<close>, \<open>'failed'\<close> and \<open>'cancelled'\<close>.
\<close>

datatype job_status = Initializing | Analyzing | Training | Completed | Failed | Cancelled

text \<open>
  The state of a \<open>concurrent.futures.Future\<close>: \<open>FStarted\<close> is running or finished,
  the two states in which \<open>cancel()\<close> changes nothing.
\<close>

datatype future_state = FPending | FStarted | FCancelled

fun future_cancel :: "future_state \<Rightarrow> future_state" where
  "future_cancel FPending = FCancelled"
| "future_cancel FStarted = FStarted"
| "future_cancel FCancelled = FCancelled"

text \<open>
  A job is a \<open>dict\<close> with a fixed set of keys; a key that is added later is an option.
  \<open>datetime\<close> values are natural numbers, \<open>str(e)\<close> is the exception itself, and the
  text \<open>Training iteration a/b\<close> is the pair \<open>(a, b)\<close>.
\<close>

record job =
  job_id :: string
  voice_name :: string
  quality :: string
  language :: string
  status :: job_status
  progress :: real
  current_stage :: string
  created_at :: nat
  audio_files :: "string list"
  estimated_duration :: int
  future :: "future_state option"
  stage_details :: "(nat \<times> nat) option"
  model_path :: "string option"
  quality_score :: "real option"
  total_duration :: "real option"
  completed_at :: "nat option"
  error :: "py_error option"
  failed_at :: "nat option"

subsection \<open>\<open>_estimate_training_time\<close> and \<open>start_voice_cloning\<close>\<close>

definition base_time :: "string \<rightharpoonup> real" where
  "base_time = [''draft'' \<mapsto> 30, ''standard'' \<mapsto> 120, ''high'' \<mapsto> 300, ''premium'' \<mapsto> 600]"

definition estimate_training_time :: "nat \<Rightarrow> string \<Rightarrow> int" where
  "estimate_training_time num_files quality_tier =
     (let file_multiplier = min (real num_files * 0.5) 3.0
      in \<lfloor>dict_get base_time quality_tier 120 * file_multiplier\<rfloor>)"

text \<open>
  The record that \<open>start_voice_cloning\<close> stores under a fresh id, with the future of the
  submitted worker attached.
\<close>

definition new_job :: "string \<Rightarrow> nat \<Rightarrow> string list \<Rightarrow> string \<Rightarrow> string \<Rightarrow> string \<Rightarrow> job" where
  "new_job uuid now files name quality_tier lang =
     \<lparr>job_id = uuid, voice_name = name, quality = quality_tier, language = lang,
      status = Initializing, progress = 0, current_stage = ''Preparing for training...'',
      created_at = now, audio_files = files,
      estimated_duration = estimate_training_time (length files) quality_tier,
      future = Some FPending, stage_details = None, model_path = None, quality_score = None,
      total_duration = None, completed_at = None, error = None, failed_at = None\<rparr>"

definition start_voice_cloning ::
  "(string \<rightharpoonup> job) \<Rightarrow> string \<Rightarrow> nat \<Rightarrow> string list \<Rightarrow> string \<Rightarrow> string \<Rightarrow> string
     \<Rightarrow> string \<times> (string \<rightharpoonup> job)" where
  "start_voice_cloning training_jobs uuid now files name quality_tier lang =
     (uuid, training_jobs(uuid \<mapsto> new_job uuid now files name quality_tier lang))"

subsection \<open>\<open>cancel_training\<close>\<close>

text \<open>The three statements of \<open>cancel_training\<close> that act on the job found.\<close>

definition cancel_job :: "job \<Rightarrow> job" where
  "cancel_job j =
     j\<lparr>future := map_option future_cancel (future j), status := Cancelled, progress := 0\<rparr>"

definition cancel_training :: "(string \<rightharpoonup> job) \<Rightarrow> string \<Rightarrow> bool \<times> (string \<rightharpoonup> job)" where
  "cancel_training training_jobs jid =
     (case training_jobs jid of
        None \<Rightarrow> (False, training_jobs)
      | Some j \<Rightarrow> (True, training_jobs(jid \<mapsto> cancel_job j)))"

definition terminal :: "job_status \<Rightarrow> bool" where
  "terminal s \<longleftrightarrow> s = Completed \<or> s = Failed \<or> s = Cancelled"

subsection \<open>The worker \<open>_train_voice_model\<close>\<close>

definition stages :: "(string \<times> real) list" where
  "stages =
     [(''Analyzing audio quality'', 10),
      (''Extracting voice characteristics'', 20),
      (''Preprocessing audio data'', 35),
      (''Training neural network'', 70),
      (''Optimizing voice model'', 85),
      (''Validating output quality'', 95),
      (''Finalizing model'', 100)]"

definition training_iterations :: "string \<rightharpoonup> nat" where
  "training_iterations = [''draft'' \<mapsto> 5, ''standard'' \<mapsto> 15, ''high'' \<mapsto> 30, ''premium'' \<mapsto> 50]"

text \<open>
  The worker runs in its own thread. What it does to the job record is a sequence of atomic
  steps: the writes to the record, in program order, and the test of the status at the head
  of every training iteration. The sleeps and the file accesses between them do not touch
  the record.
\<close>

datatype wstep =
    StartRunning
  | SetStatus job_status
  | SetStage string
  | SetProgress real
  | SetStageDetails nat nat
  | CheckCancelled
  | SetModelPath string
  | SetQualityScore real
  | SetTotalDuration real
  | SetCompletedAt nat
  | SetError py_error
  | SetFailedAt nat

text \<open>
  What the worker finds outside the record. For the audio file at each position of the
  list: whether the path exists, what loading it in the first pass gives (an exception or
  the duration in seconds) and what loading, preprocessing and extraction give in the
  second pass.
\<close>

record audio_file =
  path :: string
  file_exists :: bool
  analysis :: "py_error + real"
  extraction :: "py_error + VoiceCharacteristics"

record train_env =
  model_dir :: string
  noise :: real
  save_error :: "py_error option"
  completed_time :: nat
  failed_time :: nat

text \<open>The first loop: it writes nothing to the record.\<close>

fun analyze_files :: "audio_file list \<Rightarrow> real \<Rightarrow> py_error + real" where
  "analyze_files [] total_audio_duration = Inr total_audio_duration"
| "analyze_files (f # fs) total_audio_duration =
     (if \<not> file_exists f then Inl (FileNotFoundError (''Audio file not found: '' @ path f))
      else case analysis f of
        Inl e \<Rightarrow> Inl e
      | Inr duration \<Rightarrow>
          if duration < 2.0 then Inl (ValueError ''Audio file too short (minimum 2s)'')
          else analyze_files fs (total_audio_duration + duration))"

text \<open>
  The second loop, from index \<open>i\<close> on, of \<open>n\<close> files: the writes it makes and the
  characteristics it collects, or the exception that ends it.
\<close>

fun extract_files ::
  "nat \<Rightarrow> nat \<Rightarrow> audio_file list \<Rightarrow> wstep list \<times> (py_error + VoiceCharacteristics list)" where
  "extract_files i n [] = ([], Inr [])"
| "extract_files i n (f # fs) =
     (case extraction f of
        Inl e \<Rightarrow> ([], Inl e)
      | Inr characteristics \<Rightarrow>
          let stage_progress =
                snd (stages ! 1) + (snd (stages ! 2) - snd (stages ! 1)) * real (i + 1) / real n;
              (writes, result) = extract_files (i + 1) n fs
          in (SetProgress (min stage_progress (snd (stages ! 2))) # writes,
              case result of Inl e \<Rightarrow> Inl e | Inr cs \<Rightarrow> Inr (characteristics # cs)))"

definition training_loop :: "nat \<Rightarrow> wstep list" where
  "training_loop iterations =
     concat (map (\<lambda>i.
        [CheckCancelled,
         SetProgress (snd (stages ! 3)
            + (snd (stages ! 4) - snd (stages ! 3)) * real i / real iterations),
         SetStageDetails (i + 1) iterations]) [0..<iterations])"

text \<open>The \<open>except\<close> clause.\<close>

definition failed :: "train_env \<Rightarrow> py_error \<Rightarrow> wstep list" where
  "failed env e = [SetStatus Failed, SetError e, SetFailedAt (failed_time env)]"

definition train_voice_model ::
  "(real list \<Rightarrow> real) \<Rightarrow> train_env \<Rightarrow> string \<Rightarrow> audio_file list \<Rightarrow> string \<Rightarrow> wstep list" where
  "train_voice_model np_mean env jid files quality_tier =
     [StartRunning,
      SetStatus Analyzing, SetStage (fst (stages ! 0)), SetProgress (snd (stages ! 0))] @
     (case analyze_files files 0 of
        Inl e \<Rightarrow> failed env e
      | Inr total_audio_duration \<Rightarrow>
     [SetStage (fst (stages ! 1)), SetProgress (snd (stages ! 1))] @
     (case extract_files 0 (length files) files of
        (writes, Inl e) \<Rightarrow> writes @ failed env e
      | (writes, Inr voice_characteristics_list) \<Rightarrow>
     writes @
     [SetStage (fst (stages ! 2)), SetProgress (snd (stages ! 2))] @
     (case combine_voice_characteristics np_mean voice_characteristics_list of
        Inl e \<Rightarrow> failed env e
      | Inr combined_characteristics \<Rightarrow>
     [SetStatus Training, SetStage (fst (stages ! 3))] @
     training_loop (dict_get training_iterations quality_tier 15) @
     [SetStage (fst (stages ! 4)), SetProgress (snd (stages ! 4)),
      SetStage (fst (stages ! 5)), SetProgress (snd (stages ! 5))] @
     (case validate_model_quality combined_characteristics quality_tier (noise env) of
        Inl e \<Rightarrow> failed env e
      | Inr score \<Rightarrow>
     [SetStage (fst (stages ! 6)), SetProgress (snd (stages ! 6))] @
     (case save_error env of
        Some e \<Rightarrow> failed env e
      | None \<Rightarrow>
     [SetStatus Completed,
      SetModelPath (model_dir env @ ''/'' @ jid @ ''.pkl''),
      SetQualityScore score,
      SetTotalDuration total_audio_duration,
      SetCompletedAt (completed_time env)])))))"

subsection \<open>The worker and cancellation requests on one job record\<close>

fun apply_write :: "wstep \<Rightarrow> job \<Rightarrow> job" where
  "apply_write StartRunning j = j\<lparr>future := map_option (\<lambda>_. FStarted) (future j)\<rparr>"
| "apply_write (SetStatus s) j = j\<lparr>status := s\<rparr>"
| "apply_write (SetStage l) j = j\<lparr>current_stage := l\<rparr>"
| "apply_write (SetProgress p) j = j\<lparr>progress := p\<rparr>"
| "apply_write (SetStageDetails a b) j = j\<lparr>stage_details := Some (a, b)\<rparr>"
| "apply_write CheckCancelled j = j"
| "apply_write (SetModelPath p) j = j\<lparr>model_path := Some p\<rparr>"
| "apply_write (SetQualityScore q) j = j\<lparr>quality_score := Some q\<rparr>"
| "apply_write (SetTotalDuration d) j = j\<lparr>total_duration := Some d\<rparr>"
| "apply_write (SetCompletedAt t) j = j\<lparr>completed_at := Some t\<rparr>"
| "apply_write (SetError e) j = j\<lparr>error := Some e\<rparr>"
| "apply_write (SetFailedAt t) j = j\<lparr>failed_at := Some t\<rparr>"

text \<open>
  The state of one job: its record and the steps its worker has still to run. The executor
  never runs a future that was cancelled while pending, and the worker returns at the check
  of an iteration when it finds the status \<open>'cancelled'\<close>.
\<close>

record sys =
  rec :: job
  todo :: "wstep list"

fun worker_step :: "sys \<Rightarrow> sys" where
  "worker_step s =
     (case todo s of
        [] \<Rightarrow> s
      | StartRunning # rest \<Rightarrow>
          if future (rec s) = Some FCancelled then s\<lparr>todo := []\<rparr>
          else s\<lparr>rec := apply_write StartRunning (rec s), todo := rest\<rparr>
      | CheckCancelled # rest \<Rightarrow>
          if status (rec s) = Cancelled then s\<lparr>todo := []\<rparr> else s\<lparr>todo := rest\<rparr>
      | w # rest \<Rightarrow> s\<lparr>rec := apply_write w (rec s), todo := rest\<rparr>)"

datatype event = WorkerStep | CancelRequest

fun step :: "event \<Rightarrow> sys \<Rightarrow> sys" where
  "step WorkerStep s = worker_step s"
| "step CancelRequest s = s\<lparr>rec := cancel_job (rec s)\<rparr>"

text \<open>The record after each event of a schedule, the first being the record at creation.\<close>

fun run_events :: "event list \<Rightarrow> sys \<Rightarrow> job list" where
  "run_events [] s = [rec s]"
| "run_events (e # es) s = rec s # run_events es (step e s)"

text \<open>A submitted job: the new record and the worker's program.\<close>

definition submitted ::
  "(real list \<Rightarrow> real) \<Rightarrow> train_env \<Rightarrow> string \<Rightarrow> nat \<Rightarrow> audio_file list \<Rightarrow> string \<Rightarrow> string
     \<Rightarrow> string \<Rightarrow> sys" where
  "submitted np_mean env uuid now files name quality_tier lang =
     \<lparr>rec = new_job uuid now (map path files) name quality_tier lang,
      todo = train_voice_model np_mean env uuid files quality_tier\<rparr>"

subsection \<open>The stage table as the specification words it\<close>

definition stage_table_spec :: "(string \<times> real) list" where
  "stage_table_spec =
     [(''Analyzing audio quality'', 10),
      (''Extracting voice characteristics'', 35),
      (''Preprocessing audio data'', 35),
      (''Training neural network'', 70),
      (''Optimizing voice model'', 85),
      (''Validating output quality'', 95),
      (''Finalizing model'', 100)]"

subsection \<open>Sample job\<close>

definition good_file :: audio_file where
  "good_file =
     \<lparr>path = ''a.wav'', file_exists = True, analysis = Inr 5, extraction = Inr sample_a\<rparr>"

definition sample_env :: train_env where
  "sample_env =
     \<lparr>model_dir = ''models'', noise = 0, save_error = None, completed_time = 2,
      failed_time = 2\<rparr>"

definition sample_sys :: sys where
  "sample_sys = submitted np_mean_f64 sample_env ''j1'' 1 [good_file] ''v'' ''draft'' ''en-US''"

section \<open>Properties of the profile combiner\<close>




lemma combine_formants_set:
  "combine_formants xs =
     (if set xs = {} then default_formants else take 4 (sorted_list_of_set (set xs)))"
  by (simp add: combine_formants_def sorted_list_of_set_sort_remdups)


lemma combine_success:
  assumes "cs \<noteq> []"
    and "np_stack (map mfcc_features cs) = Inr (map mfcc_features cs)"
    and "np_stack (map chroma_features cs) = Inr (map chroma_features cs)"
  shows "combine_voice_characteristics np_mean cs = Inr
          [''fundamental_frequency'' \<mapsto> PyFloat (np_mean (map fundamental_frequency cs)),
           ''spectral_centroid'' \<mapsto> PyFloat (np_mean (map spectral_centroid cs)),
           ''spectral_rolloff'' \<mapsto> PyFloat (np_mean (map spectral_rolloff cs)),
           ''zero_crossing_rate'' \<mapsto> PyFloat (np_mean (map zero_crossing_rate cs)),
           ''tempo'' \<mapsto> PyFloat (np_mean (map tempo cs)),
           ''pitch_variance'' \<mapsto> PyFloat (np_mean (map pitch_variance cs)),
           ''voice_quality_score'' \<mapsto> PyFloat (np_mean (map voice_quality_score cs)),
           ''mfcc_features'' \<mapsto> PyList (np_mean_axis0 np_mean (map mfcc_features cs)),
           ''chroma_features'' \<mapsto> PyList (np_mean_axis0 np_mean (map chroma_features cs)),
           ''formants'' \<mapsto> PyList (combine_formants (concat (map formants cs)))]"
  using assms by (simp add: combine_voice_characteristics_def)


lemma np_stack_shape:
  "np_stack arrays =
     (if arrays = [] then Inl (ValueError ''need at least one array to stack'')
      else if \<exists>n. \<forall>a \<in> set arrays. length a = n then Inr arrays
      else Inl (ValueError ''all input arrays must have the same shape''))"
proof (cases arrays)
  case Nil
  then show ?thesis by (simp add: np_stack_def)
next
  case (Cons a as)
  then have "(\<forall>x \<in> set arrays. length x = length (hd arrays))
          \<longleftrightarrow> (\<exists>n. \<forall>x \<in> set arrays. length x = n)"
    by auto
  then show ?thesis
    by (simp only: np_stack_def)
qed

lemma np_stack_result:
  assumes "np_stack arrays = Inr rows"
  shows "rows = arrays" "arrays \<noteq> []" "\<exists>n. \<forall>a \<in> set arrays. length a = n"
  using assms by (auto simp: np_stack_shape split: if_splits)

lemma perm_Nil_iff:
  assumes "mset xs = mset ys"
  shows "xs = [] \<longleftrightarrow> ys = []"
  using mset_eq_length [OF assms] by (metis length_0_conv)

lemma np_stack_perm:
  assumes "mset arrays = mset arrays'"
  shows "np_stack arrays' = (case np_stack arrays of Inl e \<Rightarrow> Inl e | Inr _ \<Rightarrow> Inr arrays')"
proof -
  have "set arrays = set arrays'"
    using assms by (rule mset_eq_setD)
  moreover have "arrays = [] \<longleftrightarrow> arrays' = []"
    using assms by (rule perm_Nil_iff)
  ultimately show ?thesis
    by (auto simp: np_stack_shape)
qed

lemma np_mean_axis0_perm:
  assumes perm: "mset rows = mset rows'"
    and shape: "\<exists>n. \<forall>a \<in> set rows. length a = n"
    and ne: "rows \<noteq> []"
    and inv: "\<And>xs ys. mset xs = mset ys \<Longrightarrow> np_mean xs = np_mean ys"
  shows "np_mean_axis0 np_mean rows = np_mean_axis0 np_mean rows'"
proof -
  have sets: "set rows = set rows'"
    using perm by (rule mset_eq_setD)
  have ne': "rows' \<noteq> []"
    using perm_Nil_iff [OF perm] ne by simp
  have "hd rows \<in> set rows"
    using ne by (rule hd_in_set)
  moreover have "hd rows' \<in> set rows"
    unfolding sets using ne' by (rule hd_in_set)
  ultimately have len: "length (hd rows) = length (hd rows')"
    using shape by metis
  have "np_mean (map (\<lambda>row. row ! j) rows) = np_mean (map (\<lambda>row. row ! j) rows')" for j
    using perm by (intro inv) (metis mset_map)
  then show ?thesis
    by (simp add: np_mean_axis0_def len)
qed

lemma combine_formants_perm:
  assumes "mset cs = mset cs'"
  shows "combine_formants (concat (map formants cs)) = combine_formants (concat (map formants cs'))"
proof -
  have "set cs = set cs'"
    using assms by (rule mset_eq_setD)
  then show ?thesis
    by (simp add: combine_formants_set)
qed

lemma combine_perm:
  assumes perm: "mset cs = mset cs'"
    and inv: "\<And>xs ys. mset xs = mset ys \<Longrightarrow> np_mean xs = np_mean ys"
  shows "combine_voice_characteristics np_mean cs = combine_voice_characteristics np_mean cs'"
proof (cases "cs = []")
  case True
  then show ?thesis using perm_Nil_iff [OF perm] by simp
next
  case False
  then have ne': "cs' \<noteq> []"
    using perm_Nil_iff [OF perm] by simp
  have field: "np_mean (map f cs) = np_mean (map f cs')" for f :: "VoiceCharacteristics \<Rightarrow> real"
    using perm by (intro inv) (metis mset_map)
  have rows: "mset (map f cs) = mset (map f cs')" for f :: "VoiceCharacteristics \<Rightarrow> real list"
    using perm by (metis mset_map)
  note stack_m = np_stack_perm [OF rows [of mfcc_features]]
  note stack_c = np_stack_perm [OF rows [of chroma_features]]
  show ?thesis
  proof (cases "np_stack (map mfcc_features cs)")
    case (Inl e)
    then show ?thesis
      using False ne' stack_m by (simp add: combine_voice_characteristics_def)
  next
    case m: (Inr mfcc_stack)
    show ?thesis
    proof (cases "np_stack (map chroma_features cs)")
      case (Inl e)
      then show ?thesis
        using False ne' m stack_m stack_c by (simp add: combine_voice_characteristics_def)
    next
      case c: (Inr chroma_stack)
      have "np_mean_axis0 np_mean (map mfcc_features cs)
              = np_mean_axis0 np_mean (map mfcc_features cs')"
        using np_stack_result [OF m] by (intro np_mean_axis0_perm [OF rows _ _ inv]) simp_all
      moreover have "np_mean_axis0 np_mean (map chroma_features cs)
              = np_mean_axis0 np_mean (map chroma_features cs')"
        using np_stack_result [OF c] by (intro np_mean_axis0_perm [OF rows _ _ inv]) simp_all
      moreover have "mfcc_stack = map mfcc_features cs" "chroma_stack = map chroma_features cs"
        using np_stack_result [OF m] np_stack_result [OF c] by simp_all
      ultimately show ?thesis
        using False ne' m c stack_m stack_c
        by (simp add: combine_voice_characteristics_def field combine_formants_perm [OF perm])
    qed
  qed
qed

lemma np_mean_exact_perm: "mset xs = mset ys \<Longrightarrow> np_mean_exact xs = np_mean_exact ys"
  by (metis np_mean_exact_def sum_mset_sum_list size_mset)

lemma f64_sum_forward:
  "foldl f64_add 0 (map zero_crossing_rate
      [sample_zcr (1 / 10), sample_zcr (2 / 10), sample_zcr (3 / 10), sample_zcr (4 / 10)]) = 1"
  unfolding sample_zcr_def list.map select_convs by code_simp

lemma f64_sum_backward:
  "foldl f64_add 0 (map zero_crossing_rate
      [sample_zcr (4 / 10), sample_zcr (3 / 10), sample_zcr (2 / 10), sample_zcr (1 / 10)])
    = 9007199254740991 / 9007199254740992"
  unfolding sample_zcr_def list.map select_convs by code_simp

lemma f64_mean_forward:
  "np_mean_f64 (map zero_crossing_rate
      [sample_zcr (1 / 10), sample_zcr (2 / 10), sample_zcr (3 / 10), sample_zcr (4 / 10)]) = 1 / 4"
  unfolding np_mean_f64_def f64_sum_forward by code_simp

lemma f64_mean_backward:
  "np_mean_f64 (map zero_crossing_rate
      [sample_zcr (4 / 10), sample_zcr (3 / 10), sample_zcr (2 / 10), sample_zcr (1 / 10)])
    = 9007199254740991 / 36028797018963968"
  unfolding np_mean_f64_def f64_sum_backward by code_simp








lemma combine_formants_any_mean:
  "map_sum id (\<lambda>combined. combined ''formants'') (combine_voice_characteristics np_mean cs)
     = map_sum id (\<lambda>combined. combined ''formants'') (combine_voice_characteristics (\<lambda>xs. 0) cs)"
  by (simp add: combine_voice_characteristics_def split: sum.splits)

text \<open>
  Claim C7, as amended. When the means are taken in exact arithmetic, the combiner returns
  the same result (the same profile or the same error) for a list of characteristics and
  for every permutation of it. Whatever arithmetic the mean uses, the formants entry and
  the error are the same for both orders.
\<close>

theorem combine_order_independent_exact:
  assumes "mset cs = mset cs'"
  shows "combine_voice_characteristics np_mean_exact cs
           = combine_voice_characteristics np_mean_exact cs'
       \<and> map_sum id (\<lambda>combined. combined ''formants'') (combine_voice_characteristics np_mean cs)
           = map_sum id (\<lambda>combined. combined ''formants'')
               (combine_voice_characteristics np_mean cs')"
proof
  show "combine_voice_characteristics np_mean_exact cs
          = combine_voice_characteristics np_mean_exact cs'"
    using assms by (rule combine_perm) (rule np_mean_exact_perm)
  have "combine_voice_characteristics (\<lambda>xs. 0) cs = combine_voice_characteristics (\<lambda>xs. 0) cs'"
    using assms by (rule combine_perm) simp
  then show "map_sum id (\<lambda>combined. combined ''formants'') (combine_voice_characteristics np_mean cs)
           = map_sum id (\<lambda>combined. combined ''formants'')
               (combine_voice_characteristics np_mean cs')"
    by (simp add: combine_formants_any_mean [of np_mean])
qed

text \<open>Two samples in both orders.\<close>

theorem combine_order_independent_exact_witness:
  "mset [sample_a, sample_b] = mset [sample_b, sample_a]
   \<and> combine_voice_characteristics np_mean_exact [sample_a, sample_b]
       = combine_voice_characteristics np_mean_exact [sample_b, sample_a]"
proof -
  have perm: "mset [sample_a, sample_b] = mset [sample_b, sample_a]"
    by simp
  from combine_order_independent_exact [OF perm] perm show ?thesis
    by simp
qed

text \<open>
  Claim C7 as stated fails in binary64. Four samples with zero-crossing rates 0.1, 0.2,
  0.3 and 0.4: added in this order the doubles sum to 1.0 and the mean is 0.25; added in
  the reverse order they sum to 0.9999999999999999 and the mean is 0.24999999999999997.
\<close>

theorem combine_order_dependent_f64:
  "mset [sample_zcr (1 / 10), sample_zcr (2 / 10), sample_zcr (3 / 10), sample_zcr (4 / 10)]
     = mset [sample_zcr (4 / 10), sample_zcr (3 / 10), sample_zcr (2 / 10), sample_zcr (1 / 10)]
   \<and> combine_voice_characteristics np_mean_f64
         [sample_zcr (1 / 10), sample_zcr (2 / 10), sample_zcr (3 / 10), sample_zcr (4 / 10)]
     \<noteq> combine_voice_characteristics np_mean_f64
         [sample_zcr (4 / 10), sample_zcr (3 / 10), sample_zcr (2 / 10), sample_zcr (1 / 10)]"
proof
  let ?fwd = "[sample_zcr (1 / 10), sample_zcr (2 / 10), sample_zcr (3 / 10), sample_zcr (4 / 10)]"
  let ?bwd = "[sample_zcr (4 / 10), sample_zcr (3 / 10), sample_zcr (2 / 10), sample_zcr (1 / 10)]"
  show "mset ?fwd = mset ?bwd"
    by simp
  have stack: "np_stack (map mfcc_features ?fwd) = Inr (map mfcc_features ?fwd)"
    "np_stack (map chroma_features ?fwd) = Inr (map chroma_features ?fwd)"
    "np_stack (map mfcc_features ?bwd) = Inr (map mfcc_features ?bwd)"
    "np_stack (map chroma_features ?bwd) = Inr (map chroma_features ?bwd)"
    by (simp_all add: np_stack_def sample_zcr_def)
  have fwd: "\<exists>d. combine_voice_characteristics np_mean_f64 ?fwd = Inr d
               \<and> d ''zero_crossing_rate'' = Some (PyFloat (1 / 4))"
    by (subst combine_success [OF _ stack(1,2)]) (simp_all only: f64_mean_forward, simp_all)
  have bwd: "\<exists>d. combine_voice_characteristics np_mean_f64 ?bwd = Inr d
               \<and> d ''zero_crossing_rate''
                   = Some (PyFloat (9007199254740991 / 36028797018963968))"
    by (subst combine_success [OF _ stack(3,4)]) (simp_all only: f64_mean_backward, simp_all)
  show "combine_voice_characteristics np_mean_f64 ?fwd
          \<noteq> combine_voice_characteristics np_mean_f64 ?bwd"
  proof
    assume "combine_voice_characteristics np_mean_f64 ?fwd
              = combine_voice_characteristics np_mean_f64 ?bwd"
    with fwd bwd have "PyFloat (1 / 4) = PyFloat (9007199254740991 / 36028797018963968)"
      by auto
    then show False
      by simp
  qed
qed

section \<open>Properties of the quality scorer\<close>

lemma quality_multipliers_spec:
  "dict_get quality_multipliers tier (4 / 5) = tier_multiplier_spec tier"
  by (simp add: dict_get_def quality_multipliers_def tier_multiplier_spec_def)

lemma clamp_unit: "max 0 (min 1 x) = clamp x 0 1"
  by (simp add: clamp_def)

text \<open>
  Claim C2. For a profile whose \<open>voice_quality_score\<close> is the float \<open>base\<close>, for every
  tier string and every drawn perturbation, the scorer returns
  \<open>clamp(base * multiplier + perturbation, 0, 1)\<close>, where the multiplier is 0.7 for draft,
  0.8 for standard, 0.9 for high, 0.95 for premium and 0.8 for every other string, and the
  returned value lies in \<open>[0, 1]\<close>.
\<close>

theorem validate_model_quality_clamped:
  assumes "characteristics ''voice_quality_score'' = Some (PyFloat base)"
  shows "validate_model_quality characteristics tier z
           = Inr (score_spec base tier z)
         \<and> 0 \<le> score_spec base tier z \<and> score_spec base tier z \<le> 1"
proof -
  have "dict_get characteristics ''voice_quality_score'' (PyFloat 0.5) = PyFloat base"
    using assms by (simp add: dict_get_def)
  then have "validate_model_quality characteristics tier z
          = Inr (max 0 (min 1 (base * tier_multiplier_spec tier + z)))"
    by (simp add: validate_model_quality_def quality_multipliers_spec)
  moreover have "0 \<le> score_spec base tier z" "score_spec base tier z \<le> 1"
    by (simp_all add: score_spec_def clamp_def)
  ultimately show ?thesis
    by (simp add: score_spec_def clamp_unit)
qed

theorem validate_model_quality_clamped_witness:
  "validate_model_quality [''voice_quality_score'' \<mapsto> PyFloat (9 / 10)] ''premium'' (1 / 5)
     = Inr 1
   \<and> validate_model_quality [''voice_quality_score'' \<mapsto> PyFloat (1 / 2)] ''turbo'' (1 / 10)
     = Inr (1 / 2)"
  using validate_model_quality_clamped
          [of "[''voice_quality_score'' \<mapsto> PyFloat (9 / 10)]" "9 / 10" "''premium''" "1 / 5"]
        validate_model_quality_clamped
          [of "[''voice_quality_score'' \<mapsto> PyFloat (1 / 2)]" "1 / 2" "''turbo''" "1 / 10"]
  by (simp add: score_spec_def clamp_def tier_multiplier_spec_def)




section \<open>Properties of \<open>cancel_training\<close>\<close>

text \<open>
  Claim C4 as stated fails: cancelling a job whose progress is 70 leaves its progress at 0.
\<close>

theorem cancel_training_resets_progress:
  "progress (the (snd (cancel_training
       [''j1'' \<mapsto> (new_job ''j1'' 1 [''a.wav''] ''v'' ''draft'' ''en-US'')\<lparr>status := Training, progress := 70\<rparr>]
       ''j1'') ''j1'')) = 0"
  by (simp add: cancel_training_def cancel_job_def new_job_def)

text \<open>
  Claim C4, as amended. For a job in the registry, a cancellation request stores under the
  same id a record with status \<open>cancelled\<close> and progress 0, whose future has received
  \<open>cancel()\<close>; every other field of the record is the one it had.
\<close>

theorem cancel_training_frame:
  assumes "training_jobs jid = Some j"
  shows "let j' = the (snd (cancel_training training_jobs jid) jid)
         in cancel_training training_jobs jid = (True, training_jobs(jid \<mapsto> j'))
          \<and> status j' = Cancelled \<and> progress j' = 0
          \<and> future j' = map_option future_cancel (future j)
          \<and> job_id j' = job_id j \<and> voice_name j' = voice_name j \<and> quality j' = quality j
          \<and> language j' = language j \<and> current_stage j' = current_stage j
          \<and> created_at j' = created_at j \<and> audio_files j' = audio_files j
          \<and> estimated_duration j' = estimated_duration j
          \<and> stage_details j' = stage_details j \<and> model_path j' = model_path j
          \<and> quality_score j' = quality_score j \<and> total_duration j' = total_duration j
          \<and> completed_at j' = completed_at j \<and> error j' = error j
          \<and> failed_at j' = failed_at j"
  using assms by (simp add: cancel_training_def cancel_job_def)

text \<open>Cancelling a job that was just submitted.\<close>

theorem cancel_training_frame_witness:
  "cancel_training [''j1'' \<mapsto> new_job ''j1'' 1 [''a.wav''] ''v'' ''draft'' ''en-US''] ''j1''
     = (True, [''j1'' \<mapsto> (new_job ''j1'' 1 [''a.wav''] ''v'' ''draft'' ''en-US'')
                 \<lparr>status := Cancelled, future := Some FCancelled\<rparr>])"
proof -
  let ?j = "new_job ''j1'' 1 [''a.wav''] ''v'' ''draft'' ''en-US''"
  let ?j' = "the (snd (cancel_training [''j1'' \<mapsto> ?j] ''j1'') ''j1'')"
  have "[''j1'' \<mapsto> ?j] ''j1'' = Some ?j"
    by simp
  from cancel_training_frame [of "[''j1'' \<mapsto> ?j]" "''j1''" ?j, OF this]
  have "cancel_training [''j1'' \<mapsto> ?j] ''j1'' = (True, [''j1'' \<mapsto> ?j'])"
    and "?j' = ?j\<lparr>status := Cancelled, future := Some FCancelled\<rparr>"
    by (simp_all add: Let_def new_job_def)
  then show ?thesis
    by simp
qed

text \<open>
  Claim C5 as stated fails: for a completed job the call returns true and overwrites the
  status with \<open>cancelled\<close> and the progress with 0.
\<close>

theorem cancel_training_terminal_job:
  "cancel_training
       [''j1'' \<mapsto> (new_job ''j1'' 1 [''a.wav''] ''v'' ''draft'' ''en-US'')\<lparr>status := Completed, progress := 100\<rparr>]
       ''j1''
   = (True,
      [''j1'' \<mapsto> (new_job ''j1'' 1 [''a.wav''] ''v'' ''draft'' ''en-US'')\<lparr>status := Cancelled, progress := 0, future := Some FCancelled\<rparr>])"
  by (simp add: cancel_training_def cancel_job_def new_job_def)

text \<open>
  Claim C5, as amended. The call returns true exactly when the job id is in the registry;
  for an unknown id it returns false and leaves the registry as it was; for a known job that
  is not terminal it returns true and the job's status becomes \<open>cancelled\<close>.
\<close>

theorem cancel_training_result:
  "(fst (cancel_training training_jobs jid) \<longleftrightarrow> jid \<in> dom training_jobs)
   \<and> (jid \<notin> dom training_jobs \<longrightarrow> cancel_training training_jobs jid = (False, training_jobs))
   \<and> (\<forall>j. training_jobs jid = Some j \<and> \<not> terminal (status j) \<longrightarrow>
         fst (cancel_training training_jobs jid)
         \<and> map_option status (snd (cancel_training training_jobs jid) jid) = Some Cancelled)"
  by (auto simp: cancel_training_def cancel_job_def split: option.splits)

text \<open>An empty registry, and a registry with one new job.\<close>

theorem cancel_training_result_witness:
  "\<not> fst (cancel_training Map.empty ''j1'')
   \<and> fst (cancel_training [''j1'' \<mapsto> new_job ''j1'' 1 [''a.wav''] ''v'' ''draft'' ''en-US''] ''j1'')"
  using cancel_training_result [of Map.empty "''j1''"]
    cancel_training_result [of "[''j1'' \<mapsto> new_job ''j1'' 1 [''a.wav''] ''v'' ''draft'' ''en-US'']" "''j1''"]
  by simp

end
